theory Spec2Isabelle
  imports Complex_Main
begin

section \<open>Solar rooftop sizer: the sizing and recommendation engine of app.py\<close>

text \<open>
  The model follows \<^verbatim>\<open>app.py\<close> function by function. Python's \<^verbatim>\<open>float\<close> values are
  modelled as exact rationals (\<^typ>\<open>rat\<close>): every arithmetic operation is the exact
  one, and \<^verbatim>\<open>round(x, 1)\<close> rounds the exact value to the nearest tenth, a tie going to
  the even tenth as Python does. The binary rounding error of the individual operations
  is not part of the model: a decimal such as 0.35, which the binary format stores a
  little below its value, is an exact tie here. The concrete inputs evaluated below are
  away from such ties. Python's \<^verbatim>\<open>int\<close> is \<^typ>\<open>int\<close>, \<^verbatim>\<open>str\<close> is \<^typ>\<open>string\<close>, a
  \<^verbatim>\<open>dict\<close> literal is an association list read with \<^const>\<open>map_of\<close>, and every exception
  the code can raise is a value of \<open>py_error\<close>.
\<close>

datatype py_error = IndexError | KeyError | ValueError | ZeroDivisionError

subsection \<open>Height-based module lookup table\<close>

record band =
  floor_height_m :: string
  optimal_panel_type :: string
  recommended_companies :: "string list"
  typical_wattage_w :: int
  typical_dimensions_mm :: string

definition PANEL_BY_HEIGHT :: "band list" where
  "PANEL_BY_HEIGHT =
    [\<lparr>floor_height_m = ''3-15'', optimal_panel_type = ''Mono PERC / Bifacial'',
      recommended_companies = [''LONGi'', ''JA Solar'', ''Jinko''], typical_wattage_w = 490,
      typical_dimensions_mm = ''2000 x 1134 x 32''\<rparr>,
     \<lparr>floor_height_m = ''16-30'', optimal_panel_type = ''Half-cut Mono PERC / TOPCon'',
      recommended_companies = [''Trina'', ''Jinko'', ''Canadian Solar''], typical_wattage_w = 535,
      typical_dimensions_mm = ''2278 x 1134 x 35''\<rparr>,
     \<lparr>floor_height_m = ''31-45'', optimal_panel_type = ''TOPCon / HJT'',
      recommended_companies = [''LONGi'', ''JA Solar'', ''Trina''], typical_wattage_w = 575,
      typical_dimensions_mm = ''2384 x 1096 x 35''\<rparr>,
     \<lparr>floor_height_m = ''46-60'', optimal_panel_type = ''HJT / Bifacial (reinforced)'',
      recommended_companies = [''LONGi'', ''JA Solar'', ''Canadian Solar''], typical_wattage_w = 600,
      typical_dimensions_mm = ''2384 x 1134 x 35''\<rparr>,
     \<lparr>floor_height_m = ''61-75'', optimal_panel_type = ''HJT / CdTe Thin-film'',
      recommended_companies = [''First Solar'', ''Trina''], typical_wattage_w = 565,
      typical_dimensions_mm = ''2200 x 1190 x 35''\<rparr>,
     \<lparr>floor_height_m = ''76-90'', optimal_panel_type = ''CdTe Thin-film / Reinforced HJT'',
      recommended_companies = [''First Solar'', ''LONGi''], typical_wattage_w = 565,
      typical_dimensions_mm = ''2200 x 1190 x 38''\<rparr>]"

record PanelRecommendation =
  panel_type :: string
  brands :: "string list"
  wattage_w :: int
  size_mm :: string

subsection \<open>Reading a band's range\<close>

text \<open>
  \<^verbatim>\<open>re.split(r"-", s)\<close> and \<^verbatim>\<open>s.split('-')\<close> cut \<open>s\<close> at every hyphen; the pieces may be
  empty, and a string with no hyphen is one piece.
\<close>

fun split_on :: "char \<Rightarrow> string \<Rightarrow> string list" where
  "split_on c [] = [[]]"
| "split_on c (x # xs) =
     (if x = c then [] # split_on c xs
      else (case split_on c xs of [] \<Rightarrow> [[x]] | w # ws \<Rightarrow> (x # w) # ws))"

text \<open>
  \<^verbatim>\<open>float(s)\<close> on the strings of the table, which are decimal digit strings. A string
  that is empty or holds another character is reported as \<open>ValueError\<close>. (Python's
  \<^verbatim>\<open>float\<close> also reads signs, blanks, a fraction, an exponent, \<^verbatim>\<open>inf\<close> and \<^verbatim>\<open>nan\<close>; no
  string of \<open>PANEL_BY_HEIGHT\<close> has any of them.)
\<close>

definition digit_val :: "char \<Rightarrow> nat option" where
  "digit_val c = (if c \<in> set ''0123456789'' then Some (of_char c - 48) else None)"

fun digits_val :: "nat \<Rightarrow> string \<Rightarrow> nat option" where
  "digits_val acc [] = Some acc"
| "digits_val acc (c # cs) =
     (case digit_val c of None \<Rightarrow> None | Some d \<Rightarrow> digits_val (acc * 10 + d) cs)"

definition py_float :: "string \<Rightarrow> py_error + rat" where
  "py_float s = (if s = [] then Inl ValueError
                 else (case digits_val 0 s of None \<Rightarrow> Inl ValueError
                       | Some n \<Rightarrow> Inr (of_nat n)))"

text \<open>
  \<^verbatim>\<open>lo, hi = map(float, re.split(r"-", rec["floor_height_m"]))\<close>: the unpacking takes the
  first piece, converts it, takes the second, converts it, and raises \<open>ValueError\<close>
  unless the pieces are exactly two.
\<close>

definition parse_range :: "string \<Rightarrow> py_error + (rat \<times> rat)" where
  "parse_range s =
     (case split_on CHR ''-'' s of
        [] \<Rightarrow> Inl ValueError
      | [a] \<Rightarrow> (case py_float a of Inl e \<Rightarrow> Inl e | Inr _ \<Rightarrow> Inl ValueError)
      | a # b # others \<Rightarrow>
          (case py_float a of Inl e \<Rightarrow> Inl e
           | Inr lo \<Rightarrow>
               (case py_float b of Inl e \<Rightarrow> Inl e
                | Inr hi \<Rightarrow> (if others = [] then Inr (lo, hi) else Inl ValueError))))"

text \<open>\<^verbatim>\<open>float(rec["floor_height_m"].split('-')[1])\<close>, the upper bound alone.\<close>

definition upper_bound :: "string \<Rightarrow> py_error + rat" where
  "upper_bound s =
     (case split_on CHR ''-'' s of
        a # b # others \<Rightarrow> py_float b
      | _ \<Rightarrow> Inl IndexError)"

subsection \<open>recommend\_panel\_by\_floor\_height\<close>

definition to_recommendation :: "band \<Rightarrow> PanelRecommendation" where
  "to_recommendation selected =
     \<lparr>panel_type = optimal_panel_type selected,
      brands = recommended_companies selected,
      wattage_w = typical_wattage_w selected,
      size_mm = typical_dimensions_mm selected\<rparr>"

text \<open>
  The \<^verbatim>\<open>for\<close> loop: \<open>Some rec\<close> is the band at which the loop breaks, \<open>None\<close> a loop
  that ran to its end, so that the \<^verbatim>\<open>else\<close> branch is taken.
\<close>

fun scan_bands :: "band list \<Rightarrow> rat \<Rightarrow> py_error + band option" where
  "scan_bands [] height_m = Inr None"
| "scan_bands (rec # rest) height_m =
     (case parse_range (floor_height_m rec) of
        Inl e \<Rightarrow> Inl e
      | Inr (lo, hi) \<Rightarrow>
          (if lo \<le> height_m \<and> height_m \<le> hi then Inr (Some rec)
           else scan_bands rest height_m))"

definition recommend_panel :: "band list \<Rightarrow> rat \<Rightarrow> py_error + PanelRecommendation" where
  "recommend_panel bands height_m =
     (case bands of
        [] \<Rightarrow> Inl IndexError
      | first # _ \<Rightarrow>
          (case scan_bands bands height_m of
             Inl e \<Rightarrow> Inl e
           | Inr (Some rec) \<Rightarrow> Inr (to_recommendation rec)
           | Inr None \<Rightarrow>
               (case upper_bound (floor_height_m (last bands)) of
                  Inl e \<Rightarrow> Inl e
                | Inr hi \<Rightarrow>
                    Inr (to_recommendation (if height_m > hi then last bands else first)))))"

definition recommend_panel_by_floor_height :: "rat \<Rightarrow> py_error + PanelRecommendation" where
  "recommend_panel_by_floor_height height_m = recommend_panel PANEL_BY_HEIGHT height_m"

subsection \<open>City-wise solar and tariff data\<close>

record city_profile =
  grid_tariff :: rat
  export_rate :: rat
  ghi :: rat

definition CITY_SOLAR_DATA :: "(string \<times> city_profile) list" where
  "CITY_SOLAR_DATA =
    [(''pune'',          \<lparr>grid_tariff = 685/100, export_rate = 390/100, ghi = 55/10\<rparr>),
     (''mumbai'',        \<lparr>grid_tariff = 685/100, export_rate = 390/100, ghi = 50/10\<rparr>),
     (''delhi'',         \<lparr>grid_tariff = 550/100, export_rate = 550/100, ghi = 53/10\<rparr>),
     (''bangalore'',     \<lparr>grid_tariff = 700/100, export_rate = 382/100, ghi = 51/10\<rparr>),
     (''hyderabad'',     \<lparr>grid_tariff = 665/100, export_rate = 315/100, ghi = 54/10\<rparr>),
     (''chennai'',       \<lparr>grid_tariff = 580/100, export_rate = 315/100, ghi = 53/10\<rparr>),
     (''kolkata'',       \<lparr>grid_tariff = 610/100, export_rate = 315/100, ghi = 45/10\<rparr>),
     (''jaipur'',        \<lparr>grid_tariff = 650/100, export_rate = 310/100, ghi = 57/10\<rparr>),
     (''ahmedabad'',     \<lparr>grid_tariff = 610/100, export_rate = 225/100, ghi = 58/10\<rparr>),
     (''surat'',         \<lparr>grid_tariff = 610/100, export_rate = 225/100, ghi = 56/10\<rparr>),
     (''coimbatore'',    \<lparr>grid_tariff = 580/100, export_rate = 315/100, ghi = 52/10\<rparr>),
     (''lucknow'',       \<lparr>grid_tariff = 710/100, export_rate = 382/100, ghi = 52/10\<rparr>),
     (''gurgaon'',       \<lparr>grid_tariff = 600/100, export_rate = 550/100, ghi = 53/10\<rparr>),
     (''vadodara'',      \<lparr>grid_tariff = 610/100, export_rate = 225/100, ghi = 57/10\<rparr>),
     (''nagpur'',        \<lparr>grid_tariff = 685/100, export_rate = 390/100, ghi = 56/10\<rparr>),
     (''visakhapatnam'', \<lparr>grid_tariff = 580/100, export_rate = 315/100, ghi = 51/10\<rparr>),
     (''indore'',        \<lparr>grid_tariff = 700/100, export_rate = 390/100, ghi = 55/10\<rparr>),
     (''bhubaneswar'',   \<lparr>grid_tariff = 610/100, export_rate = 390/100, ghi = 52/10\<rparr>),
     (''varanasi'',      \<lparr>grid_tariff = 710/100, export_rate = 382/100, ghi = 51/10\<rparr>),
     (''default'',       \<lparr>grid_tariff = 685/100, export_rate = 390/100, ghi = 50/10\<rparr>)]"

text \<open>
  \<^verbatim>\<open>CITY_SOLAR_DATA.get(city, CITY_SOLAR_DATA["default"])\<close>: Python evaluates the
  default argument first, so a table without the key \<^verbatim>\<open>"default"\<close> raises \<open>KeyError\<close>
  whatever the city is.
\<close>

definition dict_get :: "(string \<times> 'v) list \<Rightarrow> string \<Rightarrow> 'v \<Rightarrow> 'v" where
  "dict_get d k dflt = (case map_of d k of None \<Rightarrow> dflt | Some v \<Rightarrow> v)"

definition city_data_from :: "(string \<times> city_profile) list \<Rightarrow> string \<Rightarrow> py_error + city_profile" where
  "city_data_from table city =
     (case map_of table ''default'' of
        None \<Rightarrow> Inl KeyError
      | Some dflt \<Rightarrow> Inr (dict_get table city dflt))"

definition city_data :: "string \<Rightarrow> py_error + city_profile" where
  "city_data city = city_data_from CITY_SOLAR_DATA city"

subsection \<open>Cost and technology constants\<close>

definition APPLIANCE_P_RATED :: "(string \<times> int) list" where
  "APPLIANCE_P_RATED =
    [(''AC 1.5 ton'', 1600), (''Fridge'', 150), (''TV'', 120), (''Fan'', 60),
     (''Light (LED)'', 15), (''Washing Machine'', 500),
     (''Laptop'', 60), (''Monitor'', 30), (''Other'', 100)]"

definition DEFAULT_DUTY_HOURS :: "(string \<times> rat) list" where
  "DEFAULT_DUTY_HOURS =
    [(''AC 1.5 ton'', 6), (''Fridge'', 24), (''TV'', 4), (''Fan'', 8),
     (''Light (LED)'', 6), (''Washing Machine'', 5/10),
     (''Laptop'', 4), (''Monitor'', 4), (''Other'', 4)]"

definition DERATE_FACTOR :: rat where "DERATE_FACTOR = 80/100"
definition PANEL_COST_PER_KW :: int where "PANEL_COST_PER_KW = 45000"
definition INVERTER_COSTS :: "(string \<times> int) list" where
  "INVERTER_COSTS = [(''grid'', 12000), (''hybrid'', 20000), (''offgrid'', 18000)]"
definition BATTERY_COST_PER_KWH :: int where "BATTERY_COST_PER_KWH = 13000"
definition SUBSIDY_FLAT_KW :: int where "SUBSIDY_FLAT_KW = 3"
definition SUBSIDY_PER_KW_FIRST3 :: int where "SUBSIDY_PER_KW_FIRST3 = 26000"

subsection \<open>Rounding\<close>

text \<open>
  \<^verbatim>\<open>round(x, ndigits)\<close>: the multiple of \<open>10 ^ -ndigits\<close> nearest to \<open>x\<close>; a value exactly
  half-way between two of them goes to the one whose last digit is even.
\<close>

definition round_half_even :: "rat \<Rightarrow> int" where
  "round_half_even y =
     (let f = \<lfloor>y\<rfloor>; d = y - of_int f
      in if d < 1/2 then f
         else if 1/2 < d then f + 1
         else if even f then f else f + 1)"

definition py_round :: "rat \<Rightarrow> nat \<Rightarrow> rat" where
  "py_round x ndigits = of_int (round_half_even (x * 10 ^ ndigits)) / 10 ^ ndigits"

subsection \<open>Sizing\<close>

record SolarDesign =
  pv_kw :: rat
  pv_cost :: rat
  roof_area_m2 :: rat
  inverter_kw :: rat
  inverter_type :: string
  inverter_cost :: rat
  battery_kwh :: rat
  battery_cost :: rat
  payback_years :: rat

definition size_battery :: "rat \<Rightarrow> rat \<Rightarrow> rat" where
  "size_battery outage_hours_week daily_kwh =
     py_round (daily_kwh * (outage_hours_week / 168) * (12/10)) 1"

text \<open>The second line of \<^verbatim>\<open>compute_design\<close>, the subsidy for a given PV capacity.\<close>

definition subsidy :: "rat \<Rightarrow> rat" where
  "subsidy kw =
     min kw (of_int SUBSIDY_FLAT_KW) * of_int SUBSIDY_PER_KW_FIRST3 / of_int SUBSIDY_FLAT_KW"

text \<open>
  \<^verbatim>\<open>compute_design\<close>, statement by statement. \<^verbatim>\<open>daily_kwh / ghi\<close> raises
  \<open>ZeroDivisionError\<close> when \<open>ghi\<close> is zero, \<^verbatim>\<open>INVERTER_COSTS[inverter_type]\<close> raises
  \<open>KeyError\<close> for a type that is not in the table, and the division by the annual
  savings is guarded by the conditional expression.
\<close>

definition compute_design :: "rat \<Rightarrow> rat \<Rightarrow> rat \<Rightarrow> rat \<Rightarrow> string \<Rightarrow> py_error + SolarDesign" where
  "compute_design = (\<lambda>daily_kwh ghi outage_hours grid_tariff inverter_type.
     if ghi = 0 then Inl ZeroDivisionError
     else
       let pv_kw = py_round ((daily_kwh / ghi) / DERATE_FACTOR) 1;
           pv_cost = pv_kw * of_int PANEL_COST_PER_KW - subsidy pv_kw;
           inv_kw = pv_kw
       in case map_of INVERTER_COSTS inverter_type of
            None \<Rightarrow> Inl KeyError
          | Some unit_cost \<Rightarrow>
              let inv_cost = inv_kw * of_int unit_cost;
                  batt_kwh = size_battery outage_hours daily_kwh;
                  batt_cost = batt_kwh * of_int BATTERY_COST_PER_KWH;
                  annual_savings = daily_kwh * 365 * grid_tariff;
                  payback = (if annual_savings \<noteq> 0
                             then py_round ((pv_cost + inv_cost + batt_cost) / annual_savings) 1
                             else 0)
              in Inr \<lparr>pv_kw = pv_kw, pv_cost = pv_cost, roof_area_m2 = pv_kw * 7,
                       inverter_kw = inv_kw, inverter_type = inverter_type,
                       inverter_cost = inv_cost, battery_kwh = batt_kwh,
                       battery_cost = batt_cost, payback_years = payback\<rparr>)"

subsection \<open>Daily energy of the entered loads\<close>

text \<open>
  The sidebar builds \<^verbatim>\<open>appliance_qty\<close> with one entry for every key of
  \<open>APPLIANCE_P_RATED\<close>, in the table's order.
\<close>

definition appliance_qty :: "(string \<Rightarrow> int) \<Rightarrow> (string \<times> int) list" where
  "appliance_qty entered = map (\<lambda>(appl, _). (appl, entered appl)) APPLIANCE_P_RATED"

text \<open>One term of the generator, \<^verbatim>\<open>qty * APPLIANCE_P_RATED[appl] * DEFAULT_DUTY_HOURS[appl] / 1000\<close>.\<close>

definition load_kwh :: "string \<times> int \<Rightarrow> py_error + rat" where
  "load_kwh item =
     (case item of (appl, qty) \<Rightarrow>
        (case map_of APPLIANCE_P_RATED appl of
           None \<Rightarrow> Inl KeyError
         | Some p \<Rightarrow>
             (case map_of DEFAULT_DUTY_HOURS appl of
                None \<Rightarrow> Inl KeyError
              | Some h \<Rightarrow> Inr (of_int qty * of_int p * h / 1000))))"

text \<open>\<^verbatim>\<open>sum(...)\<close> adds the terms to a running total that starts at 0.\<close>

fun py_sum :: "rat \<Rightarrow> (string \<times> int) list \<Rightarrow> py_error + rat" where
  "py_sum acc [] = Inr acc"
| "py_sum acc (item # items) =
     (case load_kwh item of Inl e \<Rightarrow> Inl e | Inr v \<Rightarrow> py_sum (acc + v) items)"

definition total_kwh :: "(string \<times> int) list \<Rightarrow> py_error + rat" where
  "total_kwh items = py_sum 0 items"

subsection \<open>Notions used to state the properties\<close>

text \<open>A height lies in a band when the band's range can be read and contains it.\<close>

definition in_band :: "band \<Rightarrow> rat \<Rightarrow> bool" where
  "in_band b h =
     (case parse_range (floor_height_m b) of
        Inl _ \<Rightarrow> False
      | Inr (lo, hi) \<Rightarrow> lo \<le> h \<and> h \<le> hi)"

definition readable :: "band \<Rightarrow> bool" where
  "readable b = (case parse_range (floor_height_m b) of Inl _ \<Rightarrow> False | Inr _ \<Rightarrow> True)"






section \<open>Properties\<close>

subsection \<open>Rounding to one decimal place\<close>








subsection \<open>The panel recommendation\<close>

text \<open>
  Over any table whose ranges can all be read, the loop finds the first band that
  contains the height, and the function returns that band, else the last band for a
  height above the last upper bound, else the first band.
\<close>

lemma scan_bands_find:
  "list_all readable bands \<Longrightarrow> scan_bands bands h = Inr (find (\<lambda>b. in_band b h) bands)"
  by (induction bands) (auto simp: readable_def in_band_def split: sum.splits)

lemma upper_bound_of_range:
  "parse_range s = Inr (lo, hi) \<Longrightarrow> upper_bound s = Inr hi"
  by (auto simp: parse_range_def upper_bound_def split: list.splits sum.splits if_splits)

lemma recommend_panel_char:
  assumes "bands \<noteq> []" and "list_all readable bands"
    and "parse_range (floor_height_m (last bands)) = Inr (l, u)"
  shows "recommend_panel bands h =
           Inr (to_recommendation
                  (case find (\<lambda>b. in_band b h) bands of
                     Some b \<Rightarrow> b
                   | None \<Rightarrow> if u < h then last bands else hd bands))"
proof -
  obtain first rest where bands: "bands = first # rest"
    using assms(1) by (cases bands) auto
  have ub: "upper_bound (floor_height_m (last bands)) = Inr u"
    using assms(3) by (rule upper_bound_of_range)
  show ?thesis
    unfolding recommend_panel_def scan_bands_find [OF assms(2)]
    using ub by (simp add: bands split: option.splits)
qed

text \<open>
  The six ranges of the shipped table, and the function on that table.
\<close>

lemma PANEL_ranges:
  "map (\<lambda>b. parse_range (floor_height_m b)) PANEL_BY_HEIGHT =
     [Inr (3, 15), Inr (16, 30), Inr (31, 45), Inr (46, 60), Inr (61, 75), Inr (76, 90)]"
  by (simp add: PANEL_BY_HEIGHT_def parse_range_def py_float_def digit_val_def)

lemma PANEL_readable: "list_all readable PANEL_BY_HEIGHT"
  using PANEL_ranges by (simp add: PANEL_BY_HEIGHT_def readable_def)

lemma PANEL_length: "length PANEL_BY_HEIGHT = 6"
  by (simp add: PANEL_BY_HEIGHT_def)

lemma PANEL_last_range:
  "parse_range (floor_height_m (last PANEL_BY_HEIGHT)) = Inr (76, 90)"
  using PANEL_ranges by (simp add: PANEL_BY_HEIGHT_def)


lemma recommend_reference:
  "recommend_panel_by_floor_height h =
     Inr (to_recommendation
            (case find (\<lambda>b. in_band b h) PANEL_BY_HEIGHT of
               Some b \<Rightarrow> b
             | None \<Rightarrow> if 90 < h then last PANEL_BY_HEIGHT else hd PANEL_BY_HEIGHT))"
  unfolding recommend_panel_by_floor_height_def
  by (rule recommend_panel_char [OF _ PANEL_readable PANEL_last_range])
     (simp add: PANEL_BY_HEIGHT_def)



text \<open>
  Claim C9. On the shipped table the function returns a recommendation for every height
  that is not negative: no exception is raised.
\<close>

theorem recommend_panel_total:
  "0 \<le> h \<Longrightarrow> \<exists>r. recommend_panel_by_floor_height h = Inr r"
  by (simp add: recommend_reference)

theorem recommend_panel_total_witness:
  "(0::rat) \<le> 10 \<and> (\<exists>r. recommend_panel_by_floor_height 10 = Inr r)"
  using recommend_panel_total [of 10] by simp

text \<open>
  The shipped ranges leave a gap of one metre between consecutive bands. A height in a
  gap is in no band and is not above 90, so the first band is returned.
\<close>

lemma gap_find_None:
  assumes "i + 1 < length PANEL_BY_HEIGHT"
    and "parse_range (floor_height_m (PANEL_BY_HEIGHT ! i)) = Inr (lo1, hi1)"
    and "parse_range (floor_height_m (PANEL_BY_HEIGHT ! (i + 1))) = Inr (lo2, hi2)"
    and "hi1 < h" and "h < lo2"
  shows "find (\<lambda>b. in_band b h) PANEL_BY_HEIGHT = None \<and> \<not> 90 < h"
proof -
  from assms(1) have "i < 5" by (simp add: PANEL_length)
  then consider "i = 0" | "i = 1" | "i = 2" | "i = 3" | "i = 4" by linarith
  then show ?thesis
  proof cases
    case 1 with assms(2-5) PANEL_ranges show ?thesis
      by (simp add: PANEL_BY_HEIGHT_def in_band_def)
  next
    case 2 with assms(2-5) PANEL_ranges show ?thesis
      by (simp add: PANEL_BY_HEIGHT_def in_band_def)
  next
    case 3 with assms(2-5) PANEL_ranges show ?thesis
      by (simp add: PANEL_BY_HEIGHT_def in_band_def)
  next
    case 4 with assms(2-5) PANEL_ranges show ?thesis
      by (simp add: PANEL_BY_HEIGHT_def in_band_def)
  next
    case 5 with assms(2-5) PANEL_ranges show ?thesis
      by (simp add: PANEL_BY_HEIGHT_def in_band_def)
  qed
qed

lemma first_band_differs:
  "0 < i \<Longrightarrow> i < length PANEL_BY_HEIGHT \<Longrightarrow>
     to_recommendation (hd PANEL_BY_HEIGHT) \<noteq> to_recommendation (PANEL_BY_HEIGHT ! i)"
proof -
  assume "0 < i" and "i < length PANEL_BY_HEIGHT"
  then have "i < 6" by (simp add: PANEL_length)
  with \<open>0 < i\<close> consider "i = 1" | "i = 2" | "i = 3" | "i = 4" | "i = 5" by linarith
  then show ?thesis
    by cases (simp_all add: PANEL_BY_HEIGHT_def to_recommendation_def)
qed

text \<open>
  Claim C10, as amended. For a height strictly inside the gap between two consecutive
  bands of the shipped table, the function returns the first band's specification. For the
  gaps above the second band (30 to 31, 45 to 46, 60 to 61, 75 to 76) this differs from
  the specification of both adjacent bands; for the gap between 15 and 16 the first band
  is itself the lower adjacent band.
\<close>

theorem gap_heights_get_first_band:
  assumes "i + 1 < length PANEL_BY_HEIGHT"
    and "parse_range (floor_height_m (PANEL_BY_HEIGHT ! i)) = Inr (lo1, hi1)"
    and "parse_range (floor_height_m (PANEL_BY_HEIGHT ! (i + 1))) = Inr (lo2, hi2)"
    and "hi1 < h" and "h < lo2"
  shows "recommend_panel_by_floor_height h = Inr (to_recommendation (hd PANEL_BY_HEIGHT))
         \<and> (0 < i \<longrightarrow>
              to_recommendation (hd PANEL_BY_HEIGHT) \<noteq> to_recommendation (PANEL_BY_HEIGHT ! i)
              \<and> to_recommendation (hd PANEL_BY_HEIGHT) \<noteq> to_recommendation (PANEL_BY_HEIGHT ! (i + 1)))
         \<and> (i = 0 \<longrightarrow> PANEL_BY_HEIGHT ! i = hd PANEL_BY_HEIGHT)"
proof -
  have "recommend_panel_by_floor_height h = Inr (to_recommendation (hd PANEL_BY_HEIGHT))"
    using gap_find_None [OF assms] by (simp add: recommend_reference)
  moreover have "0 < i \<longrightarrow>
      to_recommendation (hd PANEL_BY_HEIGHT) \<noteq> to_recommendation (PANEL_BY_HEIGHT ! i)
      \<and> to_recommendation (hd PANEL_BY_HEIGHT) \<noteq> to_recommendation (PANEL_BY_HEIGHT ! (i + 1))"
    using assms(1) first_band_differs [of i] first_band_differs [of "i + 1"] by simp
  moreover have "i = 0 \<longrightarrow> PANEL_BY_HEIGHT ! i = hd PANEL_BY_HEIGHT"
    by (simp add: PANEL_BY_HEIGHT_def)
  ultimately show ?thesis by blast
qed

theorem gap_heights_get_first_band_witness:
  "(1::nat) + 1 < length PANEL_BY_HEIGHT
   \<and> parse_range (floor_height_m (PANEL_BY_HEIGHT ! 1)) = Inr (16, 30)
   \<and> parse_range (floor_height_m (PANEL_BY_HEIGHT ! (1 + 1))) = Inr (31, 45)
   \<and> (30::rat) < 61/2 \<and> (61/2::rat) < 31
   \<and> recommend_panel_by_floor_height (61/2) = Inr (to_recommendation (hd PANEL_BY_HEIGHT))
   \<and> to_recommendation (hd PANEL_BY_HEIGHT) \<noteq> to_recommendation (PANEL_BY_HEIGHT ! 1)
   \<and> to_recommendation (hd PANEL_BY_HEIGHT) \<noteq> to_recommendation (PANEL_BY_HEIGHT ! (1 + 1))"
proof -
  have a: "(1::nat) + 1 < length PANEL_BY_HEIGHT" by (simp add: PANEL_length)
  have b: "parse_range (floor_height_m (PANEL_BY_HEIGHT ! 1)) = Inr (16, 30)"
    using PANEL_ranges by (simp add: PANEL_BY_HEIGHT_def)
  have c: "parse_range (floor_height_m (PANEL_BY_HEIGHT ! (1 + 1))) = Inr (31, 45)"
    using PANEL_ranges by (simp add: PANEL_BY_HEIGHT_def)
  have d: "(30::rat) < 61/2" and e: "(61/2::rat) < 31" by simp_all
  show ?thesis
    using gap_heights_get_first_band [OF a b c d e] a b c by simp
qed

text \<open>
  Claim C10 as stated says that the result in a gap is the specification of neither
  adjacent band. At the height 15.5, in the gap between \<^verbatim>\<open>3-15\<close> and \<^verbatim>\<open>16-30\<close>, the result
  is the specification of the band \<^verbatim>\<open>3-15\<close>, the lower adjacent band.
\<close>

theorem gap_adjacent_counterexample:
  "parse_range (floor_height_m (PANEL_BY_HEIGHT ! 0)) = Inr (3, 15)
   \<and> parse_range (floor_height_m (PANEL_BY_HEIGHT ! 1)) = Inr (16, 30)
   \<and> (15::rat) < 31/2 \<and> (31/2::rat) < 16
   \<and> recommend_panel_by_floor_height (31/2) = Inr (to_recommendation (PANEL_BY_HEIGHT ! 0))"
proof -
  have "find (\<lambda>b. in_band b (31/2)) PANEL_BY_HEIGHT = None"
    using PANEL_ranges by (simp add: PANEL_BY_HEIGHT_def in_band_def)
  then have "recommend_panel_by_floor_height (31/2) = Inr (to_recommendation (hd PANEL_BY_HEIGHT))"
    by (simp add: recommend_reference)
  then show ?thesis
    using PANEL_ranges by (simp add: PANEL_BY_HEIGHT_def)
qed

subsection \<open>The city profile\<close>

text \<open>
  Claim C8. For every key the lookup returns the stored profile when the key is in the
  table and the profile stored under \<^verbatim>\<open>default\<close> when it is not; it never raises.
\<close>

theorem city_lookup_default:
  "(\<forall>p. map_of CITY_SOLAR_DATA key = Some p \<longrightarrow> city_data key = Inr p)
   \<and> (map_of CITY_SOLAR_DATA key = None \<longrightarrow>
        city_data key = Inr \<lparr>grid_tariff = 685/100, export_rate = 390/100, ghi = 50/10\<rparr>)
   \<and> map_of CITY_SOLAR_DATA ''default'' =
        Some \<lparr>grid_tariff = 685/100, export_rate = 390/100, ghi = 50/10\<rparr>
   \<and> (\<exists>p. city_data key = Inr p)"
proof -
  have d: "map_of CITY_SOLAR_DATA ''default'' =
        Some \<lparr>grid_tariff = 685/100, export_rate = 390/100, ghi = 50/10\<rparr>"
    by (simp add: CITY_SOLAR_DATA_def)
  show ?thesis
    unfolding city_data_def city_data_from_def dict_get_def d
    by (simp split: option.splits)
qed

theorem city_lookup_default_witness:
  "map_of CITY_SOLAR_DATA ''pune'' = Some \<lparr>grid_tariff = 685/100, export_rate = 390/100, ghi = 55/10\<rparr>
   \<and> city_data ''pune'' = Inr \<lparr>grid_tariff = 685/100, export_rate = 390/100, ghi = 55/10\<rparr>
   \<and> map_of CITY_SOLAR_DATA ''Pune'' = None
   \<and> city_data ''Pune'' = Inr \<lparr>grid_tariff = 685/100, export_rate = 390/100, ghi = 50/10\<rparr>"
proof -
  have a: "map_of CITY_SOLAR_DATA ''pune'' =
             Some \<lparr>grid_tariff = 685/100, export_rate = 390/100, ghi = 55/10\<rparr>"
    by (simp add: CITY_SOLAR_DATA_def)
  have b: "map_of CITY_SOLAR_DATA ''Pune'' = None"
    by (simp add: CITY_SOLAR_DATA_def)
  show ?thesis
    using city_lookup_default [of "''pune''"] city_lookup_default [of "''Pune''"] a b
    by simp
qed

subsection \<open>The daily energy\<close>













subsection \<open>Battery, subsidy and design\<close>



lemmas cost_constants =
  DERATE_FACTOR_def PANEL_COST_PER_KW_def INVERTER_COSTS_def BATTERY_COST_PER_KWH_def
  SUBSIDY_FLAT_KW_def SUBSIDY_PER_KW_FIRST3_def

lemma inverter_cost_lookup:
  "inverter \<in> {''grid'', ''hybrid'', ''offgrid''} \<Longrightarrow> \<exists>c. map_of INVERTER_COSTS inverter = Some c"
  by (auto simp: INVERTER_COSTS_def)

lemma compute_design_returns:
  assumes "g \<noteq> 0" and "map_of INVERTER_COSTS inverter = Some c"
  shows "compute_design daily g outage tariff inverter =
     Inr \<lparr>pv_kw = py_round ((daily / g) / DERATE_FACTOR) 1,
          pv_cost = py_round ((daily / g) / DERATE_FACTOR) 1 * of_int PANEL_COST_PER_KW
                    - subsidy (py_round ((daily / g) / DERATE_FACTOR) 1),
          roof_area_m2 = py_round ((daily / g) / DERATE_FACTOR) 1 * 7,
          inverter_kw = py_round ((daily / g) / DERATE_FACTOR) 1,
          inverter_type = inverter,
          inverter_cost = py_round ((daily / g) / DERATE_FACTOR) 1 * of_int c,
          battery_kwh = size_battery outage daily,
          battery_cost = size_battery outage daily * of_int BATTERY_COST_PER_KWH,
          payback_years =
            (if daily * 365 * tariff \<noteq> 0
             then py_round
                    ((py_round ((daily / g) / DERATE_FACTOR) 1 * of_int PANEL_COST_PER_KW
                        - subsidy (py_round ((daily / g) / DERATE_FACTOR) 1)
                      + py_round ((daily / g) / DERATE_FACTOR) 1 * of_int c
                      + size_battery outage daily * of_int BATTERY_COST_PER_KWH)
                     / (daily * 365 * tariff)) 1
             else 0)\<rparr>"
  using assms unfolding compute_design_def Let_def by simp

text \<open>
  Claim C6. The subsidy is \<open>min(pv_kw, 3) * 26000 / 3\<close>: it is linear in the PV capacity up
  to 3 kW and is 26000 for every capacity of 3 kW or more. This is the amount
  \<^verbatim>\<open>compute_design\<close> takes off the PV cost.
\<close>

theorem subsidy_tier:
  "subsidy kw = min kw 3 * 26000 / 3
   \<and> (kw \<le> 3 \<longrightarrow> subsidy kw = kw * (26000 / 3))
   \<and> (3 \<le> kw \<longrightarrow> subsidy kw = 26000)
   \<and> (\<forall>d. compute_design daily g outage tariff inverter = Inr d \<longrightarrow>
          pv_cost d = pv_kw d * 45000 - min (pv_kw d) 3 * 26000 / 3)"
proof -
  have s: "\<And>k. subsidy k = min k 3 * 26000 / 3"
    by (simp add: subsidy_def cost_constants)
  have "\<forall>d. compute_design daily g outage tariff inverter = Inr d \<longrightarrow>
          pv_cost d = pv_kw d * 45000 - subsidy (pv_kw d)"
    by (auto simp: compute_design_def Let_def PANEL_COST_PER_KW_def
        split: if_splits option.splits)
  then show ?thesis
    unfolding s by (simp add: min_def)
qed

theorem subsidy_tier_witness:
  "subsidy 2 = 52000 / 3 \<and> (2::rat) \<le> 3 \<and> subsidy 2 = 2 * (26000 / 3)
   \<and> (3::rat) \<le> 5 \<and> subsidy 5 = 26000
   \<and> compute_design (132/10) (55/10) 4 (685/100) ''hybrid'' =
        Inr \<lparr>pv_kw = 3, pv_cost = 109000, roof_area_m2 = 21, inverter_kw = 3,
             inverter_type = ''hybrid'', inverter_cost = 60000,
             battery_kwh = 2 / 5, battery_cost = 5200, payback_years = 53 / 10\<rparr>
   \<and> (109000::rat) = 3 * 45000 - min 3 3 * 26000 / 3"
proof -
  have cd: "compute_design (132/10) (55/10) 4 (685/100) ''hybrid'' =
        Inr \<lparr>pv_kw = 3, pv_cost = 109000, roof_area_m2 = 21, inverter_kw = 3,
             inverter_type = ''hybrid'', inverter_cost = 60000,
             battery_kwh = 2 / 5, battery_cost = 5200, payback_years = 53 / 10\<rparr>"
    by code_simp
  show ?thesis
    using subsidy_tier [of 2 "132/10" "55/10" 4 "685/100" "''hybrid''"]
      subsidy_tier [of 5 "132/10" "55/10" 4 "685/100" "''hybrid''"] cd
    by simp
qed



text \<open>
  Claim C1. The loads of one 1.5 ton AC and one fridge add up to 13.2 kWh a day, entered
  alone or with a quantity of 0 for every other kind. With an irradiance of 5.5,
  \<^verbatim>\<open>compute_design\<close> gives a PV capacity of 3.0 kWp, a subsidy of 26000 and a PV cost of
  109000, whatever the outage hours, the tariff and the inverter type.
\<close>

theorem reference_scenario:
  assumes "inverter \<in> {''grid'', ''hybrid'', ''offgrid''}"
  shows "total_kwh [(''AC 1.5 ton'', 1), (''Fridge'', 1)] = Inr (132/10)
       \<and> total_kwh (appliance_qty ((\<lambda>_. 0)(''AC 1.5 ton'' := 1, ''Fridge'' := 1))) = Inr (132/10)
       \<and> (\<exists>d. compute_design (132/10) (55/10) outage tariff inverter = Inr d
              \<and> pv_kw d = 3 \<and> subsidy (pv_kw d) = 26000 \<and> pv_cost d = 109000)"
proof -
  have t1: "total_kwh [(''AC 1.5 ton'', 1), (''Fridge'', 1)] = Inr (132/10)"
    by (simp add: total_kwh_def load_kwh_def APPLIANCE_P_RATED_def DEFAULT_DUTY_HOURS_def)
  have t2: "total_kwh (appliance_qty ((\<lambda>_. 0)(''AC 1.5 ton'' := 1, ''Fridge'' := 1))) = Inr (132/10)"
    by (simp add: total_kwh_def appliance_qty_def load_kwh_def APPLIANCE_P_RATED_def
        DEFAULT_DUTY_HOURS_def)
  have pv: "py_round (((132/10) / (55/10)) / DERATE_FACTOR) 1 = 3"
    by (simp add: py_round_def round_half_even_def DERATE_FACTOR_def)
  have sub: "subsidy 3 = 26000"
    by (simp add: subsidy_def cost_constants)
  have eleven_halves: "(55/10::rat) \<noteq> 0" by simp
  obtain c where c: "map_of INVERTER_COSTS inverter = Some c"
    using inverter_cost_lookup [OF assms] by blast
  have "\<exists>d. compute_design (132/10) (55/10) outage tariff inverter = Inr d
              \<and> pv_kw d = 3 \<and> subsidy (pv_kw d) = 26000 \<and> pv_cost d = 109000"
    unfolding compute_design_returns [OF eleven_halves c] pv
    by (simp add: sub PANEL_COST_PER_KW_def)
  with t1 t2 show ?thesis by blast
qed

theorem reference_scenario_witness:
  "''hybrid'' \<in> {''grid'', ''hybrid'', ''offgrid''}
   \<and> total_kwh [(''AC 1.5 ton'', 1), (''Fridge'', 1)] = Inr (132/10)
   \<and> (\<exists>d. compute_design (132/10) (55/10) 4 (685/100) ''hybrid'' = Inr d
          \<and> pv_kw d = 3 \<and> subsidy (pv_kw d) = 26000 \<and> pv_cost d = 109000)"
  using reference_scenario [of "''hybrid''" 4 "685/100"] by simp





end
